theory Spec2Isabelle
  imports Main "HOL-Library.Sublist"
begin

unbundle bit_operations_syntax

section \<open>Data model\<close>

text \<open>
  The module \<^verbatim>\<open>src/main.js\<close> transforms a tree of Immutable.js collections whose
  leaves are JavaScript strings, as \<^verbatim>\<open>Immutable.fromJS\<close> builds it from nested objects,
  arrays and strings. A node is a string leaf, an \<^verbatim>\<open>Immutable.List\<close> or an
  \<^verbatim>\<open>Immutable.Map\<close> with string keys. A \<open>Map\<close> is represented by its entries in
  iteration order; its keys are pairwise different. \<^verbatim>\<open>map\<close> keeps the entries in that
  order; \<^verbatim>\<open>filter\<close> builds a new Map from the entries it keeps (\<open>mapOrder\<close> below). A
  string is a list of code units; \<open>char\<close> covers the code units 0 to 255.

  Every failure of the module is a JavaScript \<^verbatim>\<open>TypeError\<close> (a method that the
  receiver does not have, or a value that Immutable cannot iterate).
\<close>

datatype node = Str string | List "node list" | Map "(string \<times> node) list"

datatype error = TypeError

text \<open>
  What the module takes from Immutable.js and this development leaves open:
  \<^item> \<open>hashColl\<close>: the hash code of a List or a Map (the hash of a string is
    \<open>hashString\<close> below);
  \<^item> \<open>entriesJoined\<close>: the text \<^verbatim>\<open>Set(m).concat(['']).join('. ')\<close> of a Map \<open>m\<close>, whose
    set elements are the entry arrays of \<open>m\<close>, ordered by their object identities
    once there are more than 8;
  \<^item> \<open>emptyStringThrows\<close>: whether \<^verbatim>\<open>Immutable.Set('')\<close> throws (Immutable 3) or is the
    empty set (Immutable 4);
  \<^item> \<open>replacesEqual\<close>: whether adding to a Set a value equal to a stored one puts the
    new value in its place (Immutable 4) or leaves the Set as it is (Immutable 3).
\<close>

record lib =
  hashColl :: "node \<Rightarrow> nat"
  entriesJoined :: "(string \<times> node) list \<Rightarrow> string"
  emptyStringThrows :: bool
  replacesEqual :: bool

section \<open>JavaScript strings\<close>

text \<open>\<^verbatim>\<open>String.prototype.trim\<close>: white space and line terminators among the code units
  below 256 are TAB, LF, VT, FF, CR, SP and NBSP.\<close>

definition whitespace :: "char \<Rightarrow> bool" where
  "whitespace c = (of_char c \<in> {9, 10, 11, 12, 13, 32, 160 :: nat})"

definition trim :: "string \<Rightarrow> string" where
  "trim s = rev (dropWhile whitespace (rev (dropWhile whitespace s)))"

text \<open>\<^verbatim>\<open>join(sep)\<close> on the texts of the elements.\<close>

fun join :: "string \<Rightarrow> string list \<Rightarrow> string" where
  "join sep [] = []"
| "join sep [x] = x"
| "join sep (x # y # zs) = x @ sep @ join sep (y # zs)"

text \<open>\<^verbatim>\<open>s.includes(t)\<close> on strings: \<open>t\<close> occurs in \<open>s\<close>.\<close>

fun includesStr :: "string \<Rightarrow> string \<Rightarrow> bool" where
  "includesStr [] t = (t = [])"
| "includesStr (c # s) t = (prefix t (c # s) \<or> includesStr s t)"

text \<open>\<^verbatim>\<open>JSON.stringify\<close> of a string: in double quotes, with the quote, the backslash
  and the control characters escaped.\<close>

definition hexDigit :: "nat \<Rightarrow> char" where
  "hexDigit n = (if n < 10 then char_of (48 + n) else char_of (87 + n))"

definition jsonChar :: "char \<Rightarrow> string" where
  "jsonChar c =
     (let n = (of_char c :: nat) in
      if n = 34 then [CHR 0x5C, CHR 0x22]
      else if n = 92 then [CHR 0x5C, CHR 0x5C]
      else if n = 8 then [CHR 0x5C, CHR ''b'']
      else if n = 9 then [CHR 0x5C, CHR ''t'']
      else if n = 10 then [CHR 0x5C, CHR ''n'']
      else if n = 12 then [CHR 0x5C, CHR ''f'']
      else if n = 13 then [CHR 0x5C, CHR ''r'']
      else if n < 32 then [CHR 0x5C, CHR ''u'', CHR ''0'', CHR ''0'', hexDigit (n div 16), hexDigit (n mod 16)]
      else [c])"

definition quoteString :: "string \<Rightarrow> string" where
  "quoteString s = CHR 0x22 # concat (map jsonChar s) @ [CHR 0x22]"

section \<open>Immutable.js values\<close>

text \<open>\<^verbatim>\<open>Immutable.Map.isMap\<close>.\<close>

fun isMap :: "node \<Rightarrow> bool" where
  "isMap (Map es) = True"
| "isMap _ = False"

text \<open>\<^verbatim>\<open>toString()\<close>: a string is its own text; a List is \<^verbatim>\<open>List [ v1, v2 ]\<close>, a Map is
  \<^verbatim>\<open>Map { "k1": v1, "k2": v2 }\<close>, with strings quoted as by \<^verbatim>\<open>JSON.stringify\<close> and nested
  collections by their own \<^verbatim>\<open>toString()\<close>.\<close>

fun toStr :: "node \<Rightarrow> string"
  and itemsStr :: "node list \<Rightarrow> string list"
  and entriesStr :: "(string \<times> node) list \<Rightarrow> string list"
where
  "toStr (Str s) = s"
| "toStr (List xs) =
     (if xs = [] then ''List []'' else ''List [ '' @ join '', '' (itemsStr xs) @ '' ]'')"
| "toStr (Map es) =
     (if es = [] then ''Map {}'' else ''Map { '' @ join '', '' (entriesStr es) @ '' }'')"
| "itemsStr [] = []"
| "itemsStr (v # vs) = (case v of Str s \<Rightarrow> quoteString s | _ \<Rightarrow> toStr v) # itemsStr vs"
| "entriesStr [] = []"
| "entriesStr ((k, v) # es) =
     (quoteString k @ '': '' @ (case v of Str s \<Rightarrow> quoteString s | _ \<Rightarrow> toStr v)) # entriesStr es"

text \<open>\<^verbatim>\<open>Immutable.is\<close>: strings by \<^verbatim>\<open>===\<close>, Lists element by element, Maps of equal size
  entry by entry through the key, a List never equal to a Map.\<close>

fun is_node :: "node \<Rightarrow> node \<Rightarrow> bool" where
  "is_node (Str a) b = (case b of Str c \<Rightarrow> a = c | _ \<Rightarrow> False)"
| "is_node (List xs) b = (case b of List ys \<Rightarrow> list_all2 is_node xs ys | _ \<Rightarrow> False)"
| "is_node (Map es) b =
     (case b of
        Map fs \<Rightarrow> length es = length fs \<and>
          list_all (\<lambda>f. list_ex (\<lambda>e. fst e = fst f \<and> is_node (snd e) (snd f)) es) fs
      | _ \<Rightarrow> False)"

text \<open>\<^verbatim>\<open>hashString\<close> and \<^verbatim>\<open>smi\<close> of Immutable.js, on the unsigned reading of the
  32-bit value: \<^verbatim>\<open>hash = 31 * hash + string.charCodeAt(ii) | 0\<close>, then
  \<^verbatim>\<open>((i32 >>> 1) & 0x40000000) | (i32 & 0xBFFFFFFF)\<close>.\<close>

definition smi :: "nat \<Rightarrow> nat" where
  "smi i = ((i div 2) AND 0x40000000) OR (i AND 0xBFFFFFFF)"

definition hashString :: "string \<Rightarrow> nat" where
  "hashString s = smi (foldl (\<lambda>h c. (31 * h + of_char c) mod 2 ^ 32) 0 s)"

fun hash :: "lib \<Rightarrow> node \<Rightarrow> nat" where
  "hash L (Str s) = hashString s"
| "hash L v = hashColl L v"

text \<open>
  A Set is backed by a Map. Up to 8 entries are kept in an array in insertion order
  (\<^verbatim>\<open>ArrayMapNode\<close>, \<^verbatim>\<open>MAX_ARRAY_MAP_SIZE = 8\<close>). The ninth entry turns the array into a
  hash trie (\<^verbatim>\<open>createNodes\<close>: the new entry first, then the eight old ones), which is
  iterated slot by slot, 5 bits of the hash per level starting at the low bits; entries
  of equal hash stay in the order in which they entered the trie. \<open>trieKey\<close> orders
  the hashes as the trie does: the 5-bit digits of the hash, the lowest digit weighing
  most. \<open>setOrder\<close> is the iteration order of a set given by the values inserted
  into it, in the order of insertion. (Where \<^verbatim>\<open>concat\<close> rebuilds the set instead of adding to
  it, as in Immutable 3, only the order among entries of equal hash can differ.)
\<close>

definition trieKey :: "nat \<Rightarrow> nat" where
  "trieKey h = (\<Sum>i\<leftarrow>[0 ..< 7]. ((h div 32 ^ i) mod 32) * 32 ^ (6 - i))"

definition setOrder :: "lib \<Rightarrow> node list \<Rightarrow> node list" where
  "setOrder L xs =
     (if length xs \<le> 8 then xs
      else sort_key (\<lambda>v. trieKey (hash L v)) (xs ! 8 # take 8 xs @ drop 9 xs))"

text \<open>The same for a Map built from a sequence of entries with pairwise different
  keys, as \<^verbatim>\<open>filter\<close> builds its result: the iteration order of the new Map, by the hashes
  of its keys.\<close>

definition mapOrder :: "(string \<times> node) list \<Rightarrow> (string \<times> node) list" where
  "mapOrder es =
     (if length es \<le> 8 then es
      else sort_key (\<lambda>e. trieKey (hashString (fst e))) (es ! 8 # take 8 es @ drop 9 es))"

text \<open>\<^verbatim>\<open>set.add(v)\<close> on the sequence of inserted values: a value already in the set
  (by \<^verbatim>\<open>Immutable.is\<close>) is not added again; the stored value stays or is replaced by
  \<open>v\<close>, at its place.\<close>

definition setAdd :: "lib \<Rightarrow> node list \<Rightarrow> node \<Rightarrow> node list" where
  "setAdd L s v =
     (if list_ex (is_node v) s
      then (if replacesEqual L then map (\<lambda>y. if is_node v y then v else y) s else s)
      else s @ [v])"

text \<open>The values \<^verbatim>\<open>Immutable.Set(xs)\<close> inserts one after the other.\<close>

definition setOfList :: "lib \<Rightarrow> node list \<Rightarrow> node list" where
  "setOfList L xs = foldl (setAdd L) [] xs"

section \<open>The module\<close>

text \<open>\<^verbatim>\<open>.concat(['']).join('. ').trim()\<close> on a set given by its inserted values.\<close>

definition joinSet :: "lib \<Rightarrow> node list \<Rightarrow> string" where
  "joinSet L s = trim (join ''. '' (map toStr (setOrder L (setAdd L s (Str [])))))"

text \<open>\<^verbatim>\<open>createString\<close>: \<^verbatim>\<open>Immutable.Set(data).concat(['']).join('. ').trim()\<close>.
  \<^verbatim>\<open>Immutable.Set\<close> of a List holds its elements, of a string its code units as strings
  of length one, of a Map its entry arrays.\<close>

definition createString :: "lib \<Rightarrow> node \<Rightarrow> error + node" where
  "createString L data =
     (case data of
        List xs \<Rightarrow> Inr (Str (joinSet L (setOfList L xs)))
      | Str s \<Rightarrow>
          (if s = [] \<and> emptyStringThrows L then Inl TypeError
           else Inr (Str (joinSet L (setOfList L (map (\<lambda>c. Str [c]) s)))))
      | Map es \<Rightarrow> Inr (Str (trim (entriesJoined L es))))"

text \<open>\<^verbatim>\<open>hasMap\<close>: \<^verbatim>\<open>data.includes(Immutable.Map()) || Immutable.Map.isMap(data)\<close>. On a
  collection \<^verbatim>\<open>includes\<close> looks for a value equal to the empty Map; on a string it is
  \<^verbatim>\<open>String.prototype.includes\<close> with the text of the empty Map.\<close>

fun hasMap :: "lib \<Rightarrow> node \<Rightarrow> bool" where
  "hasMap L (List xs) = (list_ex (\<lambda>v. is_node v (Map [])) xs \<or> isMap (List xs))"
| "hasMap L (Map es) = (list_ex (\<lambda>v. is_node v (Map [])) (map snd es) \<or> isMap (Map es))"
| "hasMap L (Str s) = (includesStr s (toStr (Map [])) \<or> isMap (Str s))"

text \<open>\<^verbatim>\<open>transformData\<close>: \<^verbatim>\<open>data.map(d => isMap(d) ? transformData(d) : createString(d))\<close>.
  A string has no \<^verbatim>\<open>map\<close> method.\<close>

fun transformData :: "lib \<Rightarrow> node \<Rightarrow> error + node"
  and transformList :: "lib \<Rightarrow> node list \<Rightarrow> error + node list"
  and transformEntries :: "lib \<Rightarrow> (string \<times> node) list \<Rightarrow> error + (string \<times> node) list"
where
  "transformData L (Str s) = Inl TypeError"
| "transformData L (List xs) =
     (case transformList L xs of Inl e \<Rightarrow> Inl e | Inr ys \<Rightarrow> Inr (List ys))"
| "transformData L (Map es) =
     (case transformEntries L es of Inl e \<Rightarrow> Inl e | Inr fs \<Rightarrow> Inr (Map fs))"
| "transformList L [] = Inr []"
| "transformList L (d # ds) =
     (case (if isMap d then transformData L d else createString L d) of
        Inl e \<Rightarrow> Inl e
      | Inr y \<Rightarrow> (case transformList L ds of Inl e \<Rightarrow> Inl e | Inr ys \<Rightarrow> Inr (y # ys)))"
| "transformEntries L [] = Inr []"
| "transformEntries L ((k, d) # es) =
     (case (if isMap d then transformData L d else createString L d) of
        Inl e \<Rightarrow> Inl e
      | Inr y \<Rightarrow>
          (case transformEntries L es of Inl e \<Rightarrow> Inl e | Inr fs \<Rightarrow> Inr ((k, y) # fs)))"

text \<open>The predicate of \<^verbatim>\<open>getNonEmptyCollections\<close>: \<^verbatim>\<open>data.length || !data.isEmpty()\<close>.
  The \<^verbatim>\<open>length\<close> of a collection is undefined (or, in Immutable 3, its size), so the
  predicate holds of a collection exactly when it has an element. A string of length 0
  has no \<^verbatim>\<open>isEmpty\<close> to call.\<close>

fun nonEmpty :: "node \<Rightarrow> error + bool" where
  "nonEmpty (Str s) = (if length s \<noteq> 0 then Inr True else Inl TypeError)"
| "nonEmpty (List xs) = Inr (\<not> (xs = []))"
| "nonEmpty (Map es) = Inr (\<not> (es = []))"

fun filterList :: "node list \<Rightarrow> error + node list" where
  "filterList [] = Inr []"
| "filterList (d # ds) =
     (case nonEmpty d of
        Inl e \<Rightarrow> Inl e
      | Inr b \<Rightarrow>
          (case filterList ds of
             Inl e \<Rightarrow> Inl e
           | Inr ys \<Rightarrow> Inr (if b then d # ys else ys)))"

fun filterEntries :: "(string \<times> node) list \<Rightarrow> error + (string \<times> node) list" where
  "filterEntries [] = Inr []"
| "filterEntries ((k, d) # es) =
     (case nonEmpty d of
        Inl e \<Rightarrow> Inl e
      | Inr b \<Rightarrow>
          (case filterEntries es of
             Inl e \<Rightarrow> Inl e
           | Inr fs \<Rightarrow> Inr (if b then (k, d) # fs else fs)))"

text \<open>\<^verbatim>\<open>getNonEmptyCollections\<close>: \<^verbatim>\<open>data.filter(...)\<close>; a string has no \<^verbatim>\<open>filter\<close>. The
  result for a Map is a new Map of the entries kept.\<close>

fun getNonEmptyCollections :: "node \<Rightarrow> error + node" where
  "getNonEmptyCollections (Str s) = Inl TypeError"
| "getNonEmptyCollections (List xs) =
     (case filterList xs of Inl e \<Rightarrow> Inl e | Inr ys \<Rightarrow> Inr (List ys))"
| "getNonEmptyCollections (Map es) =
     (case filterEntries es of Inl e \<Rightarrow> Inl e | Inr fs \<Rightarrow> Inr (Map (mapOrder fs)))"

text \<open>\<^verbatim>\<open>flatten()\<close> without a depth: every nested collection is replaced by its values,
  at any depth; a string stays.\<close>

fun flat :: "node \<Rightarrow> node list"
  and flatList :: "node list \<Rightarrow> node list"
  and flatEntries :: "(string \<times> node) list \<Rightarrow> node list"
where
  "flat (Str s) = [Str s]"
| "flat (List xs) = flatList xs"
| "flat (Map es) = flatEntries es"
| "flatList [] = []"
| "flatList (d # ds) = flat d @ flatList ds"
| "flatEntries [] = []"
| "flatEntries ((k, d) # es) = flat d @ flatEntries es"

text \<open>\<^verbatim>\<open>flattenCollection\<close>: \<^verbatim>\<open>data.toList().flatten()\<close>; a string has no \<^verbatim>\<open>toList\<close>.\<close>

fun flattenCollection :: "node \<Rightarrow> error + node" where
  "flattenCollection (Str s) = Inl TypeError"
| "flattenCollection (List xs) = Inr (List (flatList xs))"
| "flattenCollection (Map es) = Inr (List (flatEntries es))"

text \<open>\<^verbatim>\<open>keepNested\<close>: \<^verbatim>\<open>keysToKeepNested.includes(key)\<close>.\<close>

definition keepNested :: "string list \<Rightarrow> string \<Rightarrow> bool" where
  "keepNested keysToKeepNested key = List.member keysToKeepNested key"

text \<open>\<^verbatim>\<open>transformCollection\<close>.\<close>

definition transformCollection :: "lib \<Rightarrow> node \<Rightarrow> error + node" where
  "transformCollection L data =
     (if hasMap L data then transformData L data else createString L data)"

text \<open>\<^verbatim>\<open>transformCollectionFlat\<close>:
  \<^verbatim>\<open>flow([getNonEmptyCollections, flattenCollection, transformCollection])\<close>.\<close>

definition transformCollectionFlat :: "lib \<Rightarrow> node \<Rightarrow> error + node" where
  "transformCollectionFlat L data =
     (case getNonEmptyCollections data of
        Inl e \<Rightarrow> Inl e
      | Inr d1 \<Rightarrow>
          (case flattenCollection d1 of
             Inl e \<Rightarrow> Inl e
           | Inr d2 \<Rightarrow> transformCollection L d2))"

text \<open>\<^verbatim>\<open>transformErrors\<close>: the entries of \<^verbatim>\<open>Immutable.Map(errors)\<close>, each value mapped
  according to its key.\<close>

fun mapErrors :: "lib \<Rightarrow> string list \<Rightarrow> (string \<times> node) list \<Rightarrow> error + (string \<times> node) list" where
  "mapErrors L keys [] = Inr []"
| "mapErrors L keys ((key, data) # es) =
     (case (if keepNested keys key then transformCollection L data
            else transformCollectionFlat L data) of
        Inl e \<Rightarrow> Inl e
      | Inr y \<Rightarrow>
          (case mapErrors L keys es of Inl e \<Rightarrow> Inl e | Inr fs \<Rightarrow> Inr ((key, y) # fs)))"

definition transformErrors :: "lib \<Rightarrow> (string \<times> node) list \<Rightarrow> string list \<Rightarrow> error + node" where
  "transformErrors L errors keysToKeepNested =
     (case mapErrors L keysToKeepNested errors of Inl e \<Rightarrow> Inl e | Inr fs \<Rightarrow> Inr (Map fs))"

section \<open>Notions used in the statements\<close>

text \<open>The pieces of a text between occurrences of the separator \<^verbatim>\<open>". "\<close>, read from the
  left, as \<^verbatim>\<open>s.split('. ')\<close> gives them.\<close>

fun segmentsAcc :: "string \<Rightarrow> string \<Rightarrow> string list" where
  "segmentsAcc acc [] = [rev acc]"
| "segmentsAcc acc [c] = [rev (c # acc)]"
| "segmentsAcc acc (c # d # s) =
     (if c = CHR ''.'' \<and> d = CHR '' '' then rev acc # segmentsAcc [] s
      else segmentsAcc (c # acc) (d # s))"

definition segments :: "string \<Rightarrow> string list" where
  "segments s = segmentsAcc [] s"

text \<open>The number of positions of \<open>s\<close> at which \<open>t\<close> occurs.\<close>

fun occurrences :: "string \<Rightarrow> string \<Rightarrow> nat" where
  "occurrences [] t = (if t = [] then 1 else 0)"
| "occurrences (c # s) t = (if prefix t (c # s) then 1 else 0) + occurrences s t"

text \<open>The distinct values of a sequence of strings, in the order of their first
  occurrence.\<close>

definition addNew :: "string list \<Rightarrow> string \<Rightarrow> string list" where
  "addNew s v = (if v \<in> set s then s else s @ [v])"

definition firsts :: "string list \<Rightarrow> string list" where
  "firsts ss = foldl addNew [] ss"

text \<open>The texts that \<open>createString\<close> joins for a List of string leaves, in the order
  in which it joins them.\<close>

definition leafTexts :: "lib \<Rightarrow> string list \<Rightarrow> string list" where
  "leafTexts L ss = map toStr (setOrder L (setAdd L (setOfList L (map Str ss)) (Str [])))"

text \<open>An Immutable 3 environment for closed evaluations: every collection has the hash
  0, and the entry arrays of a Map are joined in insertion order, each as
  \<^verbatim>\<open>key,value\<close>.\<close>

definition exampleLib :: lib where
  "exampleLib =
     \<lparr>hashColl = (\<lambda>v. 0),
      entriesJoined = (\<lambda>es. join ''. '' (map (\<lambda>e. fst e @ '','' @ toStr (snd e)) es @ [[]])),
      emptyStringThrows = True,
      replacesEqual = False\<rparr>"

text \<open>The input of the examples: \<^verbatim>\<open>{ name: { first: ["Required"], last: ["Required",
  "Too long"] } }\<close>.\<close>

definition nameErrors :: "(string \<times> node) list" where
  "nameErrors =
     [(''name'', Map [(''first'', List [Str ''Required'']),
                      (''last'', List [Str ''Required'', Str ''Too long''])])]"

section \<open>Evaluation\<close>

lemmas eval_defs =
  createString_def joinSet_def setOfList_def setAdd_def setOrder_def mapOrder_def trim_def
  whitespace_def transformCollection_def transformCollectionFlat_def transformErrors_def
  keepNested_def quoteString_def jsonChar_def segments_def nameErrors_def

section \<open>Sets of string leaves\<close>

lemma is_node_Str: "is_node (Str a) v = (v = Str a)"
  by (cases v) auto

lemma list_ex_is_node_Str: "list_ex (is_node (Str a)) (map Str zs) = (a \<in> set zs)"
  by (induction zs) (auto simp: is_node_Str)

lemma replace_Str: "map (\<lambda>y. if is_node (Str a) y then Str a else y) s = s"
proof -
  have "(\<lambda>y. if is_node (Str a) y then Str a else y) = (\<lambda>y. y)"
    by (rule ext) (simp only: is_node_Str split: if_split, blast)
  then show ?thesis by simp
qed

lemma setAdd_Str: "setAdd L (map Str zs) (Str a) = map Str (addNew zs a)"
  by (simp add: setAdd_def addNew_def list_ex_is_node_Str replace_Str)

lemma foldl_setAdd_Str:
  "foldl (setAdd L) (map Str zs) (map Str ss) = map Str (foldl addNew zs ss)"
  by (induction ss arbitrary: zs) (simp_all add: setAdd_Str)

lemma setOfList_Str: "setOfList L (map Str ss) = map Str (firsts ss)"
  using foldl_setAdd_Str [of L "[]" ss] by (simp add: setOfList_def firsts_def)

lemma set_addNew: "set (addNew zs v) = insert v (set zs)"
  by (auto simp: addNew_def)

lemma distinct_addNew: "distinct zs \<Longrightarrow> distinct (addNew zs v)"
  by (simp add: addNew_def)

lemma set_foldl_addNew: "set (foldl addNew zs ss) = set zs \<union> set ss"
  by (induction ss arbitrary: zs) (auto simp: set_addNew)

lemma distinct_foldl_addNew: "distinct zs \<Longrightarrow> distinct (foldl addNew zs ss)"
  by (induction ss arbitrary: zs) (simp_all add: distinct_addNew)

lemma set_firsts: "set (firsts ss) = set ss"
  by (simp add: firsts_def set_foldl_addNew)

lemma distinct_firsts: "distinct (firsts ss)"
  by (simp add: firsts_def distinct_foldl_addNew)

lemma trie_insertion_perm:
  assumes "8 < length xs"
  shows "set (xs ! 8 # take 8 xs @ drop 9 xs) = set xs"
    and "distinct (xs ! 8 # take 8 xs @ drop 9 xs) = distinct xs"
proof -
  have eq: "xs = take 8 xs @ xs ! 8 # drop 9 xs"
    using id_take_nth_drop [OF assms] by simp
  show "set (xs ! 8 # take 8 xs @ drop 9 xs) = set xs"
    by (subst (4) eq) auto
  show "distinct (xs ! 8 # take 8 xs @ drop 9 xs) = distinct xs"
    by (subst (4) eq) auto
qed

lemma set_setOrder: "set (setOrder L xs) = set xs"
proof (cases "length xs \<le> 8")
  case True
  then show ?thesis by (simp add: setOrder_def)
next
  case False
  then have "8 < length xs" by simp
  from trie_insertion_perm(1) [OF this] False show ?thesis
    unfolding setOrder_def by (simp only: set_sort if_False)
qed

lemma distinct_setOrder: "distinct (setOrder L xs) = distinct xs"
proof (cases "length xs \<le> 8")
  case True
  then show ?thesis by (simp add: setOrder_def)
next
  case False
  then have "8 < length xs" by simp
  from trie_insertion_perm(2) [OF this] False show ?thesis
    unfolding setOrder_def by (simp only: distinct_sort if_False)
qed

lemma trim_last: "trim s \<noteq> [] \<Longrightarrow> \<not> whitespace (last (trim s))"
proof -
  assume a: "trim s \<noteq> []"
  let ?d = "dropWhile whitespace (rev (dropWhile whitespace s))"
  from a have ne: "?d \<noteq> []" by (simp add: trim_def)
  then have "\<not> whitespace (hd ?d)" by (rule hd_dropWhile)
  moreover have "last (trim s) = hd ?d" using ne by (simp add: trim_def last_rev)
  ultimately show ?thesis by simp
qed

lemma trim_not_sep: "\<not> suffix ''. '' (trim s)"
proof
  assume "suffix ''. '' (trim s)"
  then obtain p where p: "trim s = p @ ''. ''" by (auto simp: suffix_def)
  then have "trim s \<noteq> []" and "last (trim s) = CHR '' ''" by simp_all
  with trim_last [of s] show False by (simp add: whitespace_def)
qed

lemma createString_leaves:
  "createString L (List (map Str ss)) = Inr (Str (trim (join ''. '' (leafTexts L ss))))"
  by (simp add: createString_def joinSet_def leafTexts_def)

lemma toStr_o_Str: "map toStr (map Str zs) = zs"
  by (induction zs) simp_all

lemma leafTexts_props:
  "distinct (leafTexts L ss) \<and> set (leafTexts L ss) = insert [] (set ss)"
proof -
  let ?zs = "addNew (firsts ss) []"
  let ?xs = "setOrder L (map Str ?zs)"
  have lt: "leafTexts L ss = map toStr ?xs"
    by (simp add: leafTexts_def setOfList_Str setAdd_Str)
  have sx: "set ?xs = Str ` set ?zs" by (simp add: set_setOrder)
  have dx: "distinct ?xs"
    by (simp add: distinct_setOrder distinct_map distinct_addNew distinct_firsts inj_on_def)
  have inj: "inj_on toStr (set ?xs)" unfolding sx by (auto simp: inj_on_def)
  have "set (map toStr ?xs) = set ?zs" unfolding set_map sx by (auto simp: image_image)
  then have "set (leafTexts L ss) = insert [] (set ss)"
    by (simp add: lt set_addNew set_firsts)
  moreover have "distinct (leafTexts L ss)"
    unfolding lt using dx inj by (simp add: distinct_map)
  ultimately show ?thesis by simp
qed

section \<open>The flattening path\<close>

lemma flat_all_Str:
  "(\<forall>v \<in> set (flat d). \<exists>s. v = Str s)"
  "(\<forall>v \<in> set (flatList ds). \<exists>s. v = Str s)"
  "(\<forall>v \<in> set (flatEntries es). \<exists>s. v = Str s)"
  by (induction d and ds and es rule: flat_flatList_flatEntries.induct) auto

lemma all_Str_map: "\<forall>v \<in> set xs. \<exists>s. v = Str s \<Longrightarrow> \<exists>ss. xs = map Str ss"
proof (induction xs)
  case Nil
  then show ?case by simp
next
  case (Cons x xs)
  then obtain s ss where "x = Str s" "xs = map Str ss" by auto
  then have "x # xs = map Str (s # ss)" by simp
  then show ?case by (rule exI)
qed

lemma hasMap_leaves: "hasMap L (List (map Str ss)) = False"
  by (induction ss) simp_all

lemma transformCollection_leaves:
  "transformCollection L (List (map Str ss)) = Inr (Str (trim (join ''. '' (leafTexts L ss))))"
  by (simp only: transformCollection_def hasMap_leaves if_False createString_leaves)

lemma flattenCollection_leaves:
  "flattenCollection d = Inr y \<Longrightarrow> \<exists>ss. y = List (map Str ss)"
  using all_Str_map [OF flat_all_Str(2)] all_Str_map [OF flat_all_Str(3)]
  by (cases d) auto

lemma transformCollectionFlat_Str:
  "transformCollectionFlat L d = Inr y \<Longrightarrow> \<exists>s. y = Str s"
  by (auto simp: transformCollectionFlat_def transformCollection_leaves
      split: sum.splits dest!: flattenCollection_leaves)

lemma transformCollectionFlat_of_Str:
  "transformCollectionFlat L (Str s) = Inl TypeError"
  by (simp add: transformCollectionFlat_def)

lemma error_only: "(e :: error) = TypeError"
  by (cases e) simp

lemma mapErrors_twice:
  "mapErrors L keys errors = Inr out \<Longrightarrow> \<exists>e \<in> set errors. \<not> keepNested keys (fst e) \<Longrightarrow>
   mapErrors L keys out = Inl TypeError"
proof (induction errors arbitrary: out)
  case Nil
  then show ?case by simp
next
  case (Cons a errors)
  obtain k d where a: "a = (k, d)" by (cases a)
  from Cons.prems(1) obtain y fs where
    y: "(if keepNested keys k then transformCollection L d else transformCollectionFlat L d) = Inr y"
    and fs: "mapErrors L keys errors = Inr fs" and out: "out = (k, y) # fs"
    by (auto simp: a split: sum.splits)
  show ?case
  proof (cases "keepNested keys k")
    case False
    with y obtain s where "y = Str s" by (auto dest: transformCollectionFlat_Str)
    with False show ?thesis by (simp add: out transformCollectionFlat_of_Str)
  next
    case True
    with Cons.prems(2) have "\<exists>e \<in> set errors. \<not> keepNested keys (fst e)" by (simp add: a)
    from Cons.IH [OF fs this] show ?thesis
      by (auto simp: out error_only split: sum.splits)
  qed
qed

lemma mapErrors_flat_empty:
  "mapErrors L keys errors = Inr out \<Longrightarrow> (k, v) \<in> set errors \<Longrightarrow> \<not> keepNested keys k \<Longrightarrow>
   v = List [] \<or> v = Map [] \<Longrightarrow> (k, Str []) \<in> set out"
proof (induction errors arbitrary: out)
  case Nil
  then show ?case by simp
next
  case (Cons a errors)
  have e: "transformCollectionFlat L (List []) = Inr (Str [])"
    "transformCollectionFlat L (Map []) = Inr (Str [])"
    by (simp_all add: eval_defs)
  obtain k' d where a: "a = (k', d)" by (cases a)
  from Cons.prems(1) obtain y fs where
    y: "(if keepNested keys k' then transformCollection L d else transformCollectionFlat L d) = Inr y"
    and fs: "mapErrors L keys errors = Inr fs" and out: "out = (k', y) # fs"
    by (auto simp: a split: sum.splits)
  show ?case
  proof (cases "(k, v) = a")
    case True
    with y Cons.prems(3,4) e show ?thesis by (auto simp: a out)
  next
    case False
    with Cons.prems(2) have "(k, v) \<in> set errors" by simp
    from Cons.IH [OF fs this Cons.prems(3,4)] show ?thesis by (simp add: out)
  qed
qed

section \<open>Joining a small set\<close>

lemma count_list_distinct: "distinct zs \<Longrightarrow> v \<in> set zs \<Longrightarrow> count_list zs v = 1"
  by (induction zs) auto

lemma join_snoc: "zs \<noteq> [] \<Longrightarrow> join sep (zs @ [z]) = join sep zs @ sep @ z"
  by (induction sep zs rule: join.induct) simp_all

lemma join_Cons_ex: "\<exists>t. join sep (z # zs) = z @ t"
  by (cases zs) simp_all

lemma foldl_addNew_hd:
  "zs \<noteq> [] \<Longrightarrow> foldl addNew zs ss \<noteq> [] \<and> hd (foldl addNew zs ss) = hd zs"
  by (induction ss arbitrary: zs) (simp_all add: addNew_def)

lemma firsts_hd: "ss \<noteq> [] \<Longrightarrow> firsts ss \<noteq> [] \<and> hd (firsts ss) = hd ss"
proof (cases ss)
  case Nil
  then show "ss \<noteq> [] \<Longrightarrow> ?thesis" by simp
next
  case (Cons s ss')
  then show ?thesis
    using foldl_addNew_hd [of "[s]" ss'] by (simp add: firsts_def addNew_def)
qed

lemma trim_sep:
  assumes "w \<noteq> []" "\<not> whitespace (hd w)"
  shows "trim (w @ ''. '') = w @ ''.''"
proof -
  from assms obtain c w' where w: "w = c # w'" and c: "\<not> whitespace c"
    by (cases w) auto
  have "dropWhile whitespace (w @ ''. '') = w @ ''. ''"
    using c by (simp add: w)
  then show ?thesis
    by (simp add: trim_def whitespace_def)
qed

lemma leafTexts_small:
  assumes "[] \<notin> set ss" "length (firsts ss) \<le> 7"
  shows "leafTexts L ss = firsts ss @ [[]]"
proof -
  have "addNew (firsts ss) [] = firsts ss @ [[]]"
    using assms(1) by (simp add: addNew_def set_firsts)
  then have "leafTexts L ss = map toStr (setOrder L (map Str (firsts ss @ [[]])))"
    by (simp add: leafTexts_def setOfList_Str setAdd_Str)
  also have "\<dots> = map toStr (map Str (firsts ss @ [[]]))"
    using assms(2) by (simp add: setOrder_def)
  also have "\<dots> = firsts ss @ [[]]"
    by (rule toStr_o_Str)
  finally show ?thesis .
qed

text \<open>An instance beyond the array size: eight single letters and the sentinel make nine
  entries, which are iterated in the order of their hashes; here the sentinel, of hash 0,
  comes first.\<close>

lemma createString_eight_values:
  "createString L (List (map Str [''a'', ''b'', ''c'', ''d'', ''e'', ''f'', ''g'', ''h'']))
     = Inr (Str ''. a. b. c. d. e. f. g. h'')"
  by (simp add: eval_defs hashString_def smi_def trieKey_def upt_rec)

lemma trim_post:
  "dropWhile whitespace s = trim s @ rev (takeWhile whitespace (rev (dropWhile whitespace s)))"
  by (metis rev_append rev_rev_ident takeWhile_dropWhile_id trim_def)

lemma trim_decomp:
  "\<exists>pre post. s = pre @ trim s @ post \<and> list_all whitespace pre \<and> list_all whitespace post"
proof -
  let ?pre = "takeWhile whitespace s"
  let ?post = "rev (takeWhile whitespace (rev (dropWhile whitespace s)))"
  have "s = ?pre @ dropWhile whitespace s" by simp
  also have "\<dots> = ?pre @ trim s @ ?post" using trim_post [of s] by (simp only:)
  finally have "s = ?pre @ trim s @ ?post" .
  moreover have "list_all whitespace ?pre"
    by (auto simp: list_all_iff dest: set_takeWhileD)
  moreover have "list_all whitespace ?post"
    by (auto simp: list_all_iff dest: set_takeWhileD)
  ultimately show ?thesis by blast
qed

lemma trim_hd: "trim s \<noteq> [] \<Longrightarrow> \<not> whitespace (hd (trim s))"
proof -
  assume a: "trim s \<noteq> []"
  let ?t = "dropWhile whitespace s"
  note t = trim_post [of s]
  from a t have "hd ?t = hd (trim s)" by (metis hd_append2)
  moreover from a t have "?t \<noteq> []" by (metis append_is_Nil_conv)
  then have "\<not> whitespace (hd ?t)" by (rule hd_dropWhile)
  ultimately show ?thesis by simp
qed

lemma trim_ends: "trim s = [] \<or> (\<not> whitespace (hd (trim s)) \<and> \<not> whitespace (last (trim s)))"
  using trim_hd [of s] trim_last [of s] by blast

lemma join_concat: "zs \<noteq> [] \<Longrightarrow> join sep zs @ sep = concat (map (\<lambda>z. z @ sep) zs)"
  by (induction sep zs rule: join.induct) simp_all

lemma trim_sep_period: "\<exists>u. trim (w @ ''. '') = u @ ''.''"
proof -
  have "\<exists>u. dropWhile whitespace (w @ ''. '') = u @ ''. ''"
  proof (cases "\<forall>c \<in> set w. whitespace c")
    case True
    then have "dropWhile whitespace (w @ ''. '') = dropWhile whitespace ''. ''"
      by (simp add: dropWhile_append2)
    then have "dropWhile whitespace (w @ ''. '') = [] @ ''. ''"
      by (simp add: whitespace_def)
    then show ?thesis by blast
  next
    case False
    then obtain c where "c \<in> set w" "\<not> whitespace c" by blast
    then have "dropWhile whitespace (w @ ''. '') = dropWhile whitespace w @ ''. ''"
      by (rule dropWhile_append1)
    then show ?thesis by blast
  qed
  then obtain u where "dropWhile whitespace (w @ ''. '') = u @ ''. ''" by blast
  then have "trim (w @ ''. '') = u @ ''.''"
    by (simp add: trim_def whitespace_def)
  then show ?thesis by blast
qed

lemma leafTexts_nonempty: "leafTexts L ss \<noteq> []"
  using leafTexts_props [of L ss] by auto

lemma mapErrors_keys:
  "mapErrors L keys errors = Inr out \<Longrightarrow> map fst out = map fst errors"
proof (induction errors arbitrary: out)
  case Nil
  then show ?case by simp
next
  case (Cons a errors)
  obtain k d where a: "a = (k, d)" by (cases a)
  from Cons.prems obtain y fs where
    fs: "mapErrors L keys errors = Inr fs" and out: "out = (k, y) # fs"
    by (auto simp: a split: sum.splits)
  from Cons.IH [OF fs] show ?case by (simp add: a out)
qed

lemma mapErrors_out_Str:
  "mapErrors L keys errors = Inr out \<Longrightarrow> e \<in> set out \<Longrightarrow> \<not> keepNested keys (fst e) \<Longrightarrow>
   \<exists>s. snd e = Str s"
proof (induction errors arbitrary: out)
  case Nil
  then show ?case by simp
next
  case (Cons a errors)
  obtain k d where a: "a = (k, d)" by (cases a)
  from Cons.prems(1) obtain y fs where
    y: "(if keepNested keys k then transformCollection L d else transformCollectionFlat L d) = Inr y"
    and fs: "mapErrors L keys errors = Inr fs" and out: "out = (k, y) # fs"
    by (auto simp: a split: sum.splits)
  show ?case
  proof (cases "e = (k, y)")
    case True
    with Cons.prems(3) y show ?thesis by (auto dest: transformCollectionFlat_Str)
  next
    case False
    with Cons.prems(2) have "e \<in> set fs" by (simp add: out)
    from Cons.IH [OF fs this Cons.prems(3)] show ?thesis .
  qed
qed

section \<open>The claims\<close>

text \<open>
  C1. \<open>hasMap\<close> is true of every Map, but of a List only when an element equals the
  empty Map: the List \<^verbatim>\<open>[ { a: ["x"] } ]\<close> holds a Map, \<open>hasMap\<close> is false of it, and
  \<open>transformCollection\<close> joins it into one string.
\<close>

theorem C1_hasMap_nonempty_map_element:
  "hasMap L (Map es)
   \<and> hasMap L (List [Map [(''a'', List [Str ''x''])]]) = False
   \<and> transformCollection L (List [Map [(''a'', List [Str ''x''])]])
       = Inr (Str (''Map { '' @ quoteString ''a'' @ '': List [ '' @ quoteString ''x'' @ '' ] }.''))"
  by (simp add: eval_defs)

text \<open>
  C2. \<open>transformData\<close> recurses into a child only when the child is itself a Map. In
  \<^verbatim>\<open>{ a: [ {} ] }\<close> the child \<^verbatim>\<open>[ {} ]\<close> is a List holding a Map, of which \<open>hasMap\<close> is
  true and which \<open>transformCollection\<close> keeps as a List; \<open>transformData\<close> joins it into
  the string \<^verbatim>\<open>Map {}.\<close> instead.
\<close>

theorem C2_transformData_child_list_joined:
  "hasMap L (List [Map []])
   \<and> transformCollection L (List [Map []]) = Inr (List [Map []])
   \<and> transformData L (Map [(''a'', List [Map []])]) = Inr (Map [(''a'', Str ''Map {}.'')])"
  by (simp add: eval_defs)

text \<open>
  C3 as stated fails: for the one leaf \<^verbatim>\<open>"a"\<close> the joined text is \<^verbatim>\<open>"a. "\<close>, of which only
  the space is trimmed off. The result is \<^verbatim>\<open>a.\<close>, not \<^verbatim>\<open>a\<close>: the period of the trailing
  separator stays.
\<close>

theorem C3_counterexample:
  "createString exampleLib (List [Str ''a'']) = Inr (Str ''a.'')
   \<and> createString exampleLib (List [Str ''a'']) \<noteq> Inr (Str ''a'')"
  by (simp add: eval_defs)

text \<open>
  C3, amended. For every sequence of string leaves, \<open>createString\<close> returns a string
  \<open>r\<close> as follows. The texts joined are pairwise different and are exactly the values of
  the leaves and the empty sentinel. The joined text, each text followed by the separator
  \<^verbatim>\<open>". "\<close> except the last, is \<open>r\<close> between two stretches of white space: only white
  space is removed, at both ends, and \<open>r\<close> neither begins nor ends with white space. So
  \<open>r\<close> never ends with the separator, but the period of a separator is not trimmed off:
  for a non-empty sequence of non-empty values, at most 7 of them distinct, the texts are
  the distinct values in the order of their first occurrence and then the sentinel, and
  \<open>r\<close> ends with a period.
\<close>

theorem C3_createString_join_trims_white_space:
  "\<exists>zs r pre post.
     createString L (List (map Str ss)) = Inr (Str r)
     \<and> distinct zs \<and> set zs = insert [] (set ss)
     \<and> pre @ r @ post @ ''. '' = concat (map (\<lambda>z. z @ ''. '') zs)
     \<and> list_all whitespace pre \<and> list_all whitespace post
     \<and> (r = [] \<or> (\<not> whitespace (hd r) \<and> \<not> whitespace (last r)))
     \<and> \<not> suffix ''. '' r
     \<and> (ss \<noteq> [] \<and> [] \<notin> set ss \<and> length (firsts ss) \<le> 7
          \<longrightarrow> zs = firsts ss @ [[]] \<and> suffix ''.'' r)"
proof -
  let ?zs = "leafTexts L ss"
  let ?J = "join ''. '' ?zs"
  let ?r = "trim ?J"
  from trim_decomp [of ?J] obtain pre post where
    d: "?J = pre @ ?r @ post" "list_all whitespace pre" "list_all whitespace post" by blast
  have c: "createString L (List (map Str ss)) = Inr (Str ?r)" by (rule createString_leaves)
  have "pre @ ?r @ post @ ''. '' = (pre @ ?r @ post) @ ''. ''" by simp
  also have "\<dots> = ?J @ ''. ''" by (simp only: d(1) [symmetric])
  also have "\<dots> = concat (map (\<lambda>z. z @ ''. '') ?zs)"
    by (rule join_concat [OF leafTexts_nonempty])
  finally have j: "pre @ ?r @ post @ ''. '' = concat (map (\<lambda>z. z @ ''. '') ?zs)" .
  have small: "ss \<noteq> [] \<and> [] \<notin> set ss \<and> length (firsts ss) \<le> 7
          \<longrightarrow> ?zs = firsts ss @ [[]] \<and> suffix ''.'' ?r"
  proof
    assume h: "ss \<noteq> [] \<and> [] \<notin> set ss \<and> length (firsts ss) \<le> 7"
    then have z: "?zs = firsts ss @ [[]]" by (simp add: leafTexts_small)
    from h firsts_hd [of ss] have "firsts ss \<noteq> []" by simp
    then have "?J = join ''. '' (firsts ss) @ ''. ''"
      using join_snoc [of "firsts ss" "''. ''" "[]"] by (simp add: z)
    with trim_sep_period [of "join ''. '' (firsts ss)"] have "suffix ''.'' ?r"
      by (auto simp: suffix_def)
    with z show "?zs = firsts ss @ [[]] \<and> suffix ''.'' ?r" by simp
  qed
  from c leafTexts_props [of L ss] j d(2,3) trim_ends [of ?J] trim_not_sep [of ?J] small
  show ?thesis by blast
qed

theorem C3_witness:
  "[''Required'', ''Required'', ''Too short''] \<noteq> []
   \<and> [] \<notin> set [''Required'', ''Required'', ''Too short'']
   \<and> length (firsts [''Required'', ''Required'', ''Too short'']) \<le> 7
   \<and> createString exampleLib (List (map Str [''Required'', ''Required'', ''Too short'']))
       = Inr (Str ''Required. Too short.'')
   \<and> suffix ''.'' ''Required. Too short.''
   \<and> \<not> suffix ''. '' ''Required. Too short.''"
proof -
  have h: "[''Required'', ''Required'', ''Too short''] \<noteq> []
     \<and> [] \<notin> set [''Required'', ''Required'', ''Too short'']
     \<and> length (firsts [''Required'', ''Required'', ''Too short'']) \<le> 7"
    by (simp add: firsts_def addNew_def)
  have e: "createString exampleLib (List (map Str [''Required'', ''Required'', ''Too short'']))
       = Inr (Str ''Required. Too short.'')"
    by (simp add: eval_defs)
  from C3_createString_join_trims_white_space [of exampleLib "[''Required'', ''Required'', ''Too short'']"] h
  obtain r where
    "createString exampleLib (List (map Str [''Required'', ''Required'', ''Too short'']))
       = Inr (Str r)" "suffix ''.'' r" "\<not> suffix ''. '' r"
    by blast
  with e have "suffix ''.'' ''Required. Too short.''" "\<not> suffix ''. '' ''Required. Too short.''"
    by simp_all
  with h e show ?thesis by blast
qed

text \<open>
  C4 as stated fails: with no key kept nested, the example yields the single string
  \<^verbatim>\<open>Required. Too long.\<close>, whose last segment is \<^verbatim>\<open>Too long.\<close> with the period, so that \<^verbatim>\<open>Too long\<close> is not among
  its segments.
\<close>

theorem C4_counterexample:
  "transformErrors exampleLib nameErrors [] = Inr (Map [(''name'', Str ''Required. Too long.'')])
   \<and> ''Too long'' \<notin> set (segments ''Required. Too long.'')"
  by (simp add: eval_defs)

text \<open>
  C4, amended. For the example with no key kept nested, \<open>transformErrors\<close> returns
  \<^verbatim>\<open>{ name: "Required. Too long." }\<close>: one flat string that ends with a period, whose
  segments are \<^verbatim>\<open>Required\<close> and \<^verbatim>\<open>Too long.\<close>.
\<close>

theorem C4_full_flatten_example:
  "transformErrors L nameErrors [] = Inr (Map [(''name'', Str ''Required. Too long.'')])
   \<and> segments ''Required. Too long.'' = [''Required'', ''Too long.'']"
  by (simp add: eval_defs)

theorem C4_witness:
  "transformErrors exampleLib nameErrors [] = Inr (Map [(''name'', Str ''Required. Too long.'')])
   \<and> segments ''Required. Too long.'' = [''Required'', ''Too long.'']"
  by (rule C4_full_flatten_example)

text \<open>
  C5 as stated fails: \<^verbatim>\<open>{ k: ["a"] }\<close> with no key kept nested becomes \<^verbatim>\<open>{ k: "a." }\<close>, and
  \<open>transformErrors\<close> on that result raises a TypeError instead of returning it.
\<close>

theorem C5_counterexample:
  "transformErrors exampleLib [(''k'', List [Str ''a''])] [] = Inr (Map [(''k'', Str ''a.'')])
   \<and> transformErrors exampleLib [(''k'', Str ''a.'')] [] = Inl TypeError"
  by (simp add: eval_defs)

text \<open>
  C5, amended. \<open>transformErrors\<close> returns the empty mapping unchanged. When an
  application succeeds, the result has the keys of the input, and the value under every
  key that is not kept nested is a string. Whenever the input has such a key, a second
  application with the same keys raises a TypeError (a string has no \<^verbatim>\<open>filter\<close>).
\<close>

theorem C5_second_application_raises:
  "transformErrors L [] keys = Inr (Map []) \<and>
   (transformErrors L errors keys = Inr (Map out) \<longrightarrow>
      map fst out = map fst errors
      \<and> (\<forall>e \<in> set out. \<not> keepNested keys (fst e) \<longrightarrow> (\<exists>s. snd e = Str s))
      \<and> ((\<exists>e \<in> set errors. \<not> keepNested keys (fst e)) \<longrightarrow>
            transformErrors L out keys = Inl TypeError))"
proof -
  have "transformErrors L [] keys = Inr (Map [])" by (simp add: transformErrors_def)
  moreover have "transformErrors L errors keys = Inr (Map out) \<longrightarrow>
      map fst out = map fst errors
      \<and> (\<forall>e \<in> set out. \<not> keepNested keys (fst e) \<longrightarrow> (\<exists>s. snd e = Str s))
      \<and> ((\<exists>e \<in> set errors. \<not> keepNested keys (fst e)) \<longrightarrow>
            transformErrors L out keys = Inl TypeError)"
  proof
    assume "transformErrors L errors keys = Inr (Map out)"
    then have m: "mapErrors L keys errors = Inr out"
      by (auto simp: transformErrors_def split: sum.splits)
    have "map fst out = map fst errors" by (rule mapErrors_keys [OF m])
    moreover have "\<forall>e \<in> set out. \<not> keepNested keys (fst e) \<longrightarrow> (\<exists>s. snd e = Str s)"
      using mapErrors_out_Str [OF m] by blast
    moreover have "(\<exists>e \<in> set errors. \<not> keepNested keys (fst e)) \<longrightarrow>
            transformErrors L out keys = Inl TypeError"
      using mapErrors_twice [OF m] by (auto simp: transformErrors_def)
    ultimately show "map fst out = map fst errors
      \<and> (\<forall>e \<in> set out. \<not> keepNested keys (fst e) \<longrightarrow> (\<exists>s. snd e = Str s))
      \<and> ((\<exists>e \<in> set errors. \<not> keepNested keys (fst e)) \<longrightarrow>
            transformErrors L out keys = Inl TypeError)" by blast
  qed
  ultimately show ?thesis by blast
qed

theorem C5_witness:
  "transformErrors exampleLib [] [] = Inr (Map [])
   \<and> transformErrors exampleLib [(''k'', List [Str ''a''])] [] = Inr (Map [(''k'', Str ''a.'')])
   \<and> (\<exists>e \<in> set [(''k'', List [Str ''a''])]. \<not> keepNested [] (fst e))
   \<and> map fst [(''k'', Str ''a.'')] = map fst [(''k'', List [Str ''a''])]
   \<and> (\<exists>s. snd (''k'', Str ''a.'') = Str s)
   \<and> transformErrors exampleLib [(''k'', Str ''a.'')] [] = Inl TypeError"
proof -
  have h1: "transformErrors exampleLib [(''k'', List [Str ''a''])] [] = Inr (Map [(''k'', Str ''a.'')])"
    by (simp add: eval_defs)
  have h2: "\<exists>e \<in> set [(''k'', List [Str ''a''])]. \<not> keepNested [] (fst e)"
    by (simp add: keepNested_def)
  have h3: "\<not> keepNested [] (fst (''k'', Str ''a.''))" "(''k'', Str ''a.'') \<in> set [(''k'', Str ''a.'')]"
    by (simp_all add: keepNested_def)
  from C5_second_application_raises [of exampleLib "[]" "[(''k'', List [Str ''a''])]" "[(''k'', Str ''a.'')]"] h1 h2 h3
  show ?thesis by blast
qed

text \<open>
  C6. A value that is the empty string makes the predicate of \<open>getNonEmptyCollections\<close>
  call \<^verbatim>\<open>isEmpty\<close> on a string: the prune stage raises a TypeError instead of removing
  the entry, and so does \<open>transformErrors\<close> on \<^verbatim>\<open>{ k: { a: "" } }\<close>.
\<close>

theorem C6_empty_string_raises:
  "getNonEmptyCollections (Map [(''a'', Str [])]) = Inl TypeError
   \<and> transformErrors L [(''k'', Map [(''a'', Str [])])] [] = Inl TypeError"
  by (simp add: eval_defs)

text \<open>
  C7 as stated fails: under the kept key the leaf lists become \<^verbatim>\<open>Required.\<close> and
  \<^verbatim>\<open>Required. Too long.\<close>, each with its final period, not the strings of the claim.
\<close>

theorem C7_counterexample:
  "transformErrors exampleLib nameErrors [''name'']
     = Inr (Map [(''name'', Map [(''first'', Str ''Required.''),
                                 (''last'', Str ''Required. Too long.'')])])
   \<and> \<not> is_node
         (Map [(''name'', Map [(''first'', Str ''Required.''),
                               (''last'', Str ''Required. Too long.'')])])
         (Map [(''name'', Map [(''first'', Str ''Required''),
                               (''last'', Str ''Required. Too long'')])])"
  by (simp add: eval_defs)

text \<open>
  C7, amended. For the example with \<^verbatim>\<open>name\<close> kept nested, \<open>transformErrors\<close> returns
  \<^verbatim>\<open>{ name: { first: "Required.", last: "Required. Too long." } }\<close>: the Map under the
  kept key retains its keys, and each leaf list is joined into a string that ends with a
  period.
\<close>

theorem C7_preserve_nested_example:
  "transformErrors L nameErrors [''name'']
     = Inr (Map [(''name'', Map [(''first'', Str ''Required.''),
                                 (''last'', Str ''Required. Too long.'')])])"
  by (simp add: eval_defs)

theorem C7_witness:
  "transformErrors exampleLib nameErrors [''name'']
     = Inr (Map [(''name'', Map [(''first'', Str ''Required.''),
                                 (''last'', Str ''Required. Too long.'')])])"
  by (rule C7_preserve_nested_example)

text \<open>
  C8 as stated fails for the returned string: a value can occur inside another value, so
  for the leaves \<^verbatim>\<open>"Too short"\<close> and \<^verbatim>\<open>"Too short (min 3)"\<close> the result contains
  \<^verbatim>\<open>Too short\<close> twice.
\<close>

theorem C8_counterexample:
  "createString exampleLib (List [Str ''Too short'', Str ''Too short (min 3)''])
     = Inr (Str ''Too short. Too short (min 3).'')
   \<and> occurrences ''Too short. Too short (min 3).'' ''Too short'' = 2"
  by (simp add: eval_defs)

text \<open>
  C8, amended. For every sequence of string leaves, each value is joined exactly once:
  the returned string is, between two stretches of white space that the trim removes,
  the concatenation of texts separated by \<^verbatim>\<open>". "\<close>, among which every value of the
  sequence occurs exactly once and which are the values and the empty sentinel only. For
  \<^verbatim>\<open>["Required", "Required", "Too short"]\<close> the result is \<^verbatim>\<open>Required\<close>, the separator,
  \<^verbatim>\<open>Too short\<close> and a period, in which each of the two values occurs once.
\<close>

theorem C8_each_value_joined_once:
  "(\<exists>zs r pre post.
      createString L (List (map Str ss)) = Inr (Str r)
      \<and> (\<forall>v \<in> set ss. count_list zs v = 1) \<and> set zs = insert [] (set ss)
      \<and> pre @ r @ post @ ''. '' = concat (map (\<lambda>z. z @ ''. '') zs)
      \<and> list_all whitespace pre \<and> list_all whitespace post)
   \<and> createString L (List [Str ''Required'', Str ''Required'', Str ''Too short''])
       = Inr (Str (''Required'' @ ''. '' @ ''Too short'' @ ''.''))
   \<and> occurrences ''Required. Too short.'' ''Required'' = 1
   \<and> occurrences ''Required. Too short.'' ''Too short'' = 1"
proof -
  let ?zs = "leafTexts L ss"
  let ?J = "join ''. '' ?zs"
  let ?r = "trim ?J"
  from trim_decomp [of ?J] obtain pre post where
    d: "?J = pre @ ?r @ post" "list_all whitespace pre" "list_all whitespace post" by blast
  have c: "createString L (List (map Str ss)) = Inr (Str ?r)" by (rule createString_leaves)
  have "pre @ ?r @ post @ ''. '' = (pre @ ?r @ post) @ ''. ''" by simp
  also have "\<dots> = ?J @ ''. ''" by (simp only: d(1) [symmetric])
  also have "\<dots> = concat (map (\<lambda>z. z @ ''. '') ?zs)"
    by (rule join_concat [OF leafTexts_nonempty])
  finally have j: "pre @ ?r @ post @ ''. '' = concat (map (\<lambda>z. z @ ''. '') ?zs)" .
  have n: "\<forall>v \<in> set ss. count_list ?zs v = 1"
    using leafTexts_props [of L ss] by (simp add: count_list_distinct)
  have s: "set ?zs = insert [] (set ss)"
    using leafTexts_props [of L ss] by simp
  from c n s j d(2,3) have "\<exists>zs r pre post.
      createString L (List (map Str ss)) = Inr (Str r)
      \<and> (\<forall>v \<in> set ss. count_list zs v = 1) \<and> set zs = insert [] (set ss)
      \<and> pre @ r @ post @ ''. '' = concat (map (\<lambda>z. z @ ''. '') zs)
      \<and> list_all whitespace pre \<and> list_all whitespace post"
    by blast
  moreover have "createString L (List [Str ''Required'', Str ''Required'', Str ''Too short''])
       = Inr (Str (''Required'' @ ''. '' @ ''Too short'' @ ''.''))"
    by (simp add: eval_defs)
  moreover have "occurrences ''Required. Too short.'' ''Required'' = 1"
    "occurrences ''Required. Too short.'' ''Too short'' = 1"
    by simp_all
  ultimately show ?thesis by blast
qed

theorem C8_witness:
  "createString exampleLib (List (map Str [''Required'', ''Required'', ''Too short'']))
     = Inr (Str ''Required. Too short.'')
   \<and> (\<exists>zs pre post.
         count_list zs ''Required'' = 1 \<and> count_list zs ''Too short'' = 1
         \<and> set zs = insert [] (set [''Required'', ''Required'', ''Too short''])
         \<and> pre @ ''Required. Too short.'' @ post @ ''. '' = concat (map (\<lambda>z. z @ ''. '') zs)
         \<and> list_all whitespace pre \<and> list_all whitespace post)"
proof -
  have e: "createString exampleLib (List (map Str [''Required'', ''Required'', ''Too short'']))
       = Inr (Str ''Required. Too short.'')"
    by (simp add: eval_defs)
  from C8_each_value_joined_once [of exampleLib "[''Required'', ''Required'', ''Too short'']"]
  obtain zs r pre post where
    z1: "createString exampleLib (List (map Str [''Required'', ''Required'', ''Too short'']))
          = Inr (Str r)"
    and z2: "\<forall>v \<in> set [''Required'', ''Required'', ''Too short'']. count_list zs v = 1"
    and z3: "set zs = insert [] (set [''Required'', ''Required'', ''Too short''])"
    and z4: "pre @ r @ post @ ''. '' = concat (map (\<lambda>z. z @ ''. '') zs)"
    and z5: "list_all whitespace pre" "list_all whitespace post"
    by blast
  from z1 e have r: "r = ''Required. Too short.''" by simp
  from z2 have "count_list zs ''Required'' = 1" "count_list zs ''Too short'' = 1"
    by simp_all
  with z3 z4 z5 e show ?thesis unfolding r by blast
qed

text \<open>
  C9. \<open>transformErrors\<close> maps the empty mapping with no keys to the empty mapping; the
  flattening path turns the empty List and the empty Map into the empty string, and in
  every result of \<open>transformErrors\<close> a key that is not kept nested and whose value is the
  empty List or the empty Map carries the empty string.
\<close>

theorem C9_empty_handling:
  "transformErrors L [] [] = Inr (Map [])
   \<and> transformCollectionFlat L (List []) = Inr (Str [])
   \<and> transformCollectionFlat L (Map []) = Inr (Str [])
   \<and> (transformErrors L errors keys = Inr (Map out) \<longrightarrow> (k, v) \<in> set errors \<longrightarrow>
        \<not> keepNested keys k \<longrightarrow> v = List [] \<or> v = Map [] \<longrightarrow> (k, Str []) \<in> set out)"
proof -
  have "transformErrors L errors keys = Inr (Map out) \<longrightarrow> (k, v) \<in> set errors \<longrightarrow>
        \<not> keepNested keys k \<longrightarrow> v = List [] \<or> v = Map [] \<longrightarrow> (k, Str []) \<in> set out"
    using mapErrors_flat_empty [of L keys errors out k v]
    by (auto simp: transformErrors_def split: sum.splits)
  moreover have "transformErrors L [] [] = Inr (Map [])"
    "transformCollectionFlat L (List []) = Inr (Str [])"
    "transformCollectionFlat L (Map []) = Inr (Str [])"
    by (simp_all add: eval_defs)
  ultimately show ?thesis by blast
qed

theorem C9_witness:
  "transformErrors exampleLib [(''a'', List []), (''b'', Map [])] []
     = Inr (Map [(''a'', Str []), (''b'', Str [])])
   \<and> (''b'', Map []) \<in> set [(''a'', List []), (''b'', Map [])]
   \<and> \<not> keepNested [] ''b''
   \<and> (''b'', Str []) \<in> set [(''a'', Str []), (''b'', Str [])]"
proof -
  have h1: "transformErrors exampleLib [(''a'', List []), (''b'', Map [])] []
     = Inr (Map [(''a'', Str []), (''b'', Str [])])"
    by (simp add: eval_defs)
  have h2: "(''b'', Map []) \<in> set [(''a'', List []), (''b'', Map [])]" by simp
  have h3: "\<not> keepNested [] ''b''" by (simp add: keepNested_def)
  from C9_empty_handling [of exampleLib "[(''a'', List []), (''b'', Map [])]" "[]"
      "[(''a'', Str []), (''b'', Str [])]" "''b''" "Map []"] h1 h2 h3
  have "(''b'', Str []) \<in> set [(''a'', Str []), (''b'', Str [])]" by blast
  with h1 h2 h3 show ?thesis by blast
qed

text \<open>
  C10 as stated fails: the final trim also removes white space at the front, so the one
  leaf \<^verbatim>\<open>" a"\<close> (which does not end in white space) gives \<^verbatim>\<open>a.\<close>, not the value followed by
  a period.
\<close>

theorem C10_counterexample:
  "createString exampleLib (List [Str '' a'']) = Inr (Str ''a.'')
   \<and> ''a.'' \<noteq> join ''. '' (firsts ['' a'']) @ ''.''"
  by (simp add: eval_defs firsts_def addNew_def)

text \<open>
  C10, amended. For every non-empty sequence of non-empty string leaves with at most 7
  distinct values, the first of which does not begin with white space, \<open>createString\<close>
  returns the distinct values in the order of their first occurrence, joined by
  \<^verbatim>\<open>". "\<close> and followed by one period.
\<close>

theorem C10_terminal_period:
  assumes "ss \<noteq> []" "[] \<notin> set ss" "length (firsts ss) \<le> 7" "\<not> whitespace (hd (hd ss))"
  shows "createString L (List (map Str ss)) = Inr (Str (join ''. '' (firsts ss) @ ''.''))"
proof -
  let ?w = "join ''. '' (firsts ss)"
  from firsts_hd [OF assms(1)] obtain zs where f: "firsts ss = hd ss # zs"
    by (cases "firsts ss") auto
  from assms(1,2) have hne: "hd ss \<noteq> []" by (cases ss) auto
  from join_Cons_ex [of "''. ''" "hd ss" zs] obtain t where t: "?w = hd ss @ t"
    by (auto simp: f)
  have w: "?w \<noteq> []" "\<not> whitespace (hd ?w)"
    using hne assms(4) by (simp_all add: t)
  have "join ''. '' (leafTexts L ss) = ?w @ ''. ''"
    using join_snoc [of "firsts ss" "''. ''" "[]"] firsts_hd [OF assms(1)]
    by (simp add: leafTexts_small [OF assms(2,3)])
  then show ?thesis
    using trim_sep [OF w] by (simp add: createString_leaves)
qed

theorem C10_witness:
  "[''Required'', ''Required'', ''Too long''] \<noteq> []
   \<and> [] \<notin> set [''Required'', ''Required'', ''Too long'']
   \<and> length (firsts [''Required'', ''Required'', ''Too long'']) \<le> 7
   \<and> \<not> whitespace (hd (hd [''Required'', ''Required'', ''Too long'']))
   \<and> createString exampleLib (List (map Str [''Required'', ''Required'', ''Too long'']))
       = Inr (Str ''Required. Too long.'')"
proof -
  have h: "[''Required'', ''Required'', ''Too long''] \<noteq> []"
    "[] \<notin> set [''Required'', ''Required'', ''Too long'']"
    "length (firsts [''Required'', ''Required'', ''Too long'']) \<le> 7"
    "\<not> whitespace (hd (hd [''Required'', ''Required'', ''Too long'']))"
    by (simp_all add: firsts_def addNew_def whitespace_def)
  from C10_terminal_period [OF h, of exampleLib] have
    "createString exampleLib (List (map Str [''Required'', ''Required'', ''Too long'']))
       = Inr (Str ''Required. Too long.'')"
    by (simp add: firsts_def addNew_def)
  with h show ?thesis by blast
qed

end
